theory Spec2Isabelle
  imports Main "HOL-Library.Word"
begin

section \<open>Machine types\<close>

text \<open>
  \<^verbatim>\<open>hybrid_hook.h\<close> is an x86-only header: \<^verbatim>\<open>c_detour::apply\<close> carries
  \<^verbatim>\<open>static_assert(sizeof(void*) == 4)\<close>, so \<^verbatim>\<open>uintptr_t\<close> is a 32-bit word.
  The casts \<^verbatim>\<open>static_cast<uint64_t>\<close>, \<^verbatim>\<open>static_cast<uint16_t>\<close> and
  \<^verbatim>\<open>static_cast<address_t>\<close> are \<open>ucast\<close> (zero extension or truncation).
\<close>

type_synonym uintptr_t = "32 word"
type_synonym uint64_t = "64 word"
type_synonym uint32_t = "32 word"
type_synonym uint16_t = "16 word"

section \<open>The process the hooks act on\<close>

text \<open>
  The part of the address space the header touches, as an explicit store:
  \<^item> \<open>vptr\<close>: for each mapped object address, the dispatch-table pointer stored at
    its start (what \<^verbatim>\<open>*reinterpret_cast<uintptr_t**>(m_instance)\<close> reads);
  \<^item> \<open>tables\<close>: for each mapped dispatch table, its slots in order (what
    \<^verbatim>\<open>(*vt_ptr)[index]\<close> reads);
  \<^item> \<open>redirects\<close>: the inline code patches (source, destination) that are
    committed at the moment, newest first.
  An address outside the domain of a map is not mapped; reading through it is
  undefined in C++ and is a \<open>None\<close> in the model.
\<close>

record world =
  vptr :: "uintptr_t \<rightharpoonup> uintptr_t"
  tables :: "uintptr_t \<rightharpoonup> uintptr_t list"
  redirects :: "(uint64_t \<times> uint64_t) list"

text \<open>\<^verbatim>\<open>(*vt_ptr)[index]\<close>: defined only inside a mapped table.\<close>

definition read_slot :: "world \<Rightarrow> uintptr_t \<Rightarrow> nat \<Rightarrow> uintptr_t option" where
  "read_slot w vt i =
     (case tables w vt of
        None \<Rightarrow> None
      | Some tbl \<Rightarrow> if i < length tbl then Some (tbl ! i) else None)"

text \<open>
  What a virtual call through \<open>instance\<close> would find at slot \<open>i\<close>: the
  object's table pointer first, then the slot of that table.
\<close>

definition live_slot :: "world \<Rightarrow> uintptr_t \<Rightarrow> nat \<Rightarrow> uintptr_t option" where
  "live_slot w instance i =
     (case vptr w instance of
        None \<Rightarrow> None
      | Some vt \<Rightarrow> read_slot w vt i)"

section \<open>The Patch Engine (PolyHook2)\<close>

text \<open>
  Modelled from the spec: the header only includes PolyHook2, the library itself
  is not part of the sources. Whether a \<^verbatim>\<open>hook()\<close> call commits is the
  engine's decision and is taken as a parameter: a \<open>PatchEngine\<close> answers, for the arguments of a hook
  object and the current process state,
  \<^item> \<open>x86Detour_commit\<close>: whether the detour commits, and the value the engine
    leaves in the trampoline variable it was handed (\<^verbatim>\<open>&m_trampoline\<close>);
  \<^item> \<open>VFuncSwap_commit\<close>: whether the single-slot swap commits;
  \<^item> \<open>VTableSwap_commit\<close>: \<open>None\<close> when the whole-table swap fails, otherwise
    the address at which the engine allocates the clone.
\<close>

record PatchEngine =
  x86Detour_commit :: "uint64_t \<Rightarrow> uint64_t \<Rightarrow> world \<Rightarrow> bool \<times> uint64_t"
  VFuncSwap_commit :: "uintptr_t \<Rightarrow> uint16_t \<Rightarrow> uint64_t \<Rightarrow> world \<Rightarrow> bool"
  VTableSwap_commit :: "uint64_t \<Rightarrow> uint16_t \<Rightarrow> uint64_t \<Rightarrow> world \<Rightarrow> uintptr_t option"

text \<open>
  Modelled from the spec: the class \<^verbatim>\<open>PLH::x86Detour\<close> is not in the sources.
  Of \<^verbatim>\<open>PLH::x86Detour(src, dest, &m_trampoline, m_dis)\<close> the object keeps the
  two addresses. The trampoline pointer is always
  \<^verbatim>\<open>&m_trampoline\<close> of the owning \<^verbatim>\<open>c_detour\<close>, so the value written through
  it is returned by \<open>x86Detour_hook\<close> instead.
\<close>

record x86Detour =
  fnAddress :: uint64_t
  fnCallback :: uint64_t

text \<open>
  Modelled from the spec: \<^verbatim>\<open>PLH::x86Detour::hook\<close> is not in the sources.
  The spec's \<^verbatim>\<open>engine.install_detour(source, destination) -> {trampoline, session} | failure\<close>:
  on success the redirect is installed and a trampoline is produced; on failure
  nothing is patched. The result is the \<^verbatim>\<open>bool\<close> that \<^verbatim>\<open>hook()\<close> returns, the
  value left in the trampoline variable and the process state.
\<close>

definition x86Detour_hook :: "PatchEngine \<Rightarrow> x86Detour \<Rightarrow> world \<Rightarrow> bool \<times> uint64_t \<times> world" where
  "x86Detour_hook E det w =
     (case x86Detour_commit E (fnAddress det) (fnCallback det) w of
        (ok, tramp) \<Rightarrow>
          if ok then (True, tramp, w\<lparr>redirects := (fnAddress det, fnCallback det) # redirects w\<rparr>)
          else (False, tramp, w))"

text \<open>
  Modelled from the spec: \<^verbatim>\<open>PLH::x86Detour::unHook\<close> is not in the sources.
  The spec's \<^verbatim>\<open>engine.remove_detour(session)\<close>: undoes the redirect, restoring the
  original code.
\<close>

definition x86Detour_unHook :: "x86Detour \<Rightarrow> world \<Rightarrow> world" where
  "x86Detour_unHook det w =
     w\<lparr>redirects := remove1 (fnAddress det, fnCallback det) (redirects w)\<rparr>"

text \<open>
  Modelled from the spec: the class \<^verbatim>\<open>PLH::VFuncSwapHook\<close> is not in the
  sources. The session holds the arguments of
  \<^verbatim>\<open>PLH::VFuncSwapHook(table, index, replacement)\<close> as the header passes
  them, and the slot value the engine saves when it commits (\<open>vf_saved\<close>),
  which is what restoring the slot writes back.
\<close>

record VFuncSwapHook =
  vf_table :: uintptr_t
  vf_index :: uint16_t
  vf_replacement :: uint64_t
  vf_saved :: uintptr_t

text \<open>
  Modelled from the spec: \<^verbatim>\<open>PLH::VFuncSwapHook::hook\<close> is not in the sources.
  The spec's \<^verbatim>\<open>engine.swap_slot(table_pointer, index, destination) -> {session} | failure\<close>:
  overwrites just that one table slot in place with the destination, leaving
  all other slots and the table pointer itself untouched. \<open>None\<close> is a
  \<^verbatim>\<open>hook()\<close> that returned false, with nothing written; a slot that does not
  exist cannot be committed.
\<close>

definition VFuncSwapHook_hook ::
  "PatchEngine \<Rightarrow> uintptr_t \<Rightarrow> uint16_t \<Rightarrow> uint64_t \<Rightarrow> world \<Rightarrow> (VFuncSwapHook \<times> world) option" where
  "VFuncSwapHook_hook E table idx replacement w =
     (case tables w table of
        None \<Rightarrow> None
      | Some tbl \<Rightarrow>
          if unat idx < length tbl \<and> VFuncSwap_commit E table idx replacement w
          then Some (\<lparr>vf_table = table, vf_index = idx, vf_replacement = replacement,
                      vf_saved = tbl ! unat idx\<rparr>,
                     w\<lparr>tables := (tables w)(table \<mapsto> tbl[unat idx := ucast replacement])\<rparr>)
          else None)"

text \<open>
  Modelled from the spec: \<^verbatim>\<open>PLH::VFuncSwapHook::unHook\<close> is not in the sources.
  The spec's \<^verbatim>\<open>engine.unswap_slot(session)\<close>: a single-slot entry restores its
  slot, that is, writes back the value the session saved.
\<close>

definition VFuncSwapHook_unHook :: "VFuncSwapHook \<Rightarrow> world \<Rightarrow> world" where
  "VFuncSwapHook_unHook hk w =
     (case tables w (vf_table hk) of
        None \<Rightarrow> w
      | Some tbl \<Rightarrow>
          if unat (vf_index hk) < length tbl
          then w\<lparr>tables := (tables w)(vf_table hk \<mapsto> tbl[unat (vf_index hk) := vf_saved hk])\<rparr>
          else w)"

text \<open>
  Modelled from the spec: the class \<^verbatim>\<open>PLH::VTableSwapHook\<close> is not in the
  sources. The session holds the arguments of
  \<^verbatim>\<open>PLH::VTableSwapHook(instance, index, replacement)\<close> as the header passes
  them, the table pointer the engine found in the instance when it committed
  (\<open>vt_orig_table\<close>, the table it repoints the instance back to) and the
  address of its clone (\<open>vt_clone\<close>, which it releases).
\<close>

record VTableSwapHook =
  vt_class :: uint64_t
  vt_index :: uint16_t
  vt_replacement :: uint64_t
  vt_orig_table :: uintptr_t
  vt_clone :: uintptr_t

text \<open>
  Modelled from the spec: \<^verbatim>\<open>PLH::VTableSwapHook::hook\<close> is not in the sources.
  The spec's \<^verbatim>\<open>engine.clone_table_and_redirect(instance_pointer, index, destination) -> {session} | failure\<close>:
  allocates a duplicate of the entire table, overwrites the duplicate's entry at
  the index with the destination, and repoints the instance's table pointer to
  the duplicate. The clone is committed only at an address that holds no table
  yet; \<open>None\<close> is a \<^verbatim>\<open>hook()\<close> that returned false, with nothing changed.
\<close>

definition VTableSwapHook_hook ::
  "PatchEngine \<Rightarrow> uint64_t \<Rightarrow> uint16_t \<Rightarrow> uint64_t \<Rightarrow> world \<Rightarrow> (VTableSwapHook \<times> world) option" where
  "VTableSwapHook_hook E cls idx replacement w =
     (case vptr w (ucast cls) of
        None \<Rightarrow> None
      | Some vt \<Rightarrow>
          (case tables w vt of
             None \<Rightarrow> None
           | Some tbl \<Rightarrow>
               (case VTableSwap_commit E cls idx replacement w of
                  None \<Rightarrow> None
                | Some clone \<Rightarrow>
                    if unat idx < length tbl \<and> tables w clone = None
                    then Some (\<lparr>vt_class = cls, vt_index = idx, vt_replacement = replacement,
                                vt_orig_table = vt, vt_clone = clone\<rparr>,
                               w\<lparr>vptr := (vptr w)(ucast cls \<mapsto> clone),
                                 tables := (tables w)(clone \<mapsto> tbl[unat idx := ucast replacement])\<rparr>)
                    else None)))"

text \<open>
  Modelled from the spec: \<^verbatim>\<open>PLH::VTableSwapHook::unHook\<close> is not in the sources.
  The spec's \<^verbatim>\<open>engine.restore_table(session)\<close>: repoints the instance back to
  the original table (the one the session saved) and releases the clone.
\<close>

definition VTableSwapHook_unHook :: "VTableSwapHook \<Rightarrow> world \<Rightarrow> world" where
  "VTableSwapHook_unHook hk w =
     w\<lparr>vptr := (vptr w)(ucast (vt_class hk) \<mapsto> vt_orig_table hk),
       tables := (tables w)(vt_clone hk := None)\<rparr>"

section \<open>\<^verbatim>\<open>c_hook\<close>: the base class\<close>

text \<open>
  Both base-class \<^verbatim>\<open>apply\<close> overloads are \<^verbatim>\<open>{ return 0; }\<close>. An operation takes
  the object and the process state and returns the result with both, so that
  "no state change" is an equation.
\<close>

definition c_hook_apply :: "uintptr_t \<Rightarrow> 'h \<times> world \<Rightarrow> uintptr_t \<times> 'h \<times> world" where
  "c_hook_apply dest s = (0, s)"

definition c_hook_apply_index :: "uint32_t \<Rightarrow> uintptr_t \<Rightarrow> 'h \<times> world \<Rightarrow> uintptr_t \<times> 'h \<times> world" where
  "c_hook_apply_index index dest s = (0, s)"

section \<open>\<^verbatim>\<open>c_detour\<close>\<close>

text \<open>
  The members of \<^verbatim>\<open>c_detour\<close>. \<^verbatim>\<open>m_detour\<close> is a \<^verbatim>\<open>std::unique_ptr\<close>: \<open>None\<close> is
  the null pointer. The disassembler \<^verbatim>\<open>m_dis\<close> carries no state the header
  reads.
\<close>

record c_detour =
  m_src :: uintptr_t
  m_trampoline :: uint64_t
  m_detour :: "x86Detour option"

text \<open>\<^verbatim>\<open>c_detour() = default\<close> and \<^verbatim>\<open>explicit c_detour(address_t src)\<close>.\<close>

definition c_detour_default :: c_detour where
  "c_detour_default = \<lparr>m_src = 0, m_trampoline = 0, m_detour = None\<rparr>"

definition c_detour_new :: "uintptr_t \<Rightarrow> c_detour" where
  "c_detour_new src = \<lparr>m_src = src, m_trampoline = 0, m_detour = None\<rparr>"

text \<open>\<^verbatim>\<open>address_t apply(address_t dest) override\<close>, statement by statement.\<close>

definition c_detour_apply ::
  "PatchEngine \<Rightarrow> uintptr_t \<Rightarrow> c_detour \<times> world \<Rightarrow> uintptr_t \<times> c_detour \<times> world" where
  "c_detour_apply E dest s =
     (case s of (d, w) \<Rightarrow>
        if m_detour d \<noteq> None then (ucast (m_trampoline d), d, w)
        else if m_src d = 0 \<or> dest = 0 then (0, d, w)
        else
          (let det = \<lparr>fnAddress = ucast (m_src d), fnCallback = ucast dest\<rparr>
           in case x86Detour_hook E det w of
                (ok, tramp, w') \<Rightarrow>
                  if \<not> ok
                  then (0, d\<lparr>m_detour := None, m_trampoline := 0\<rparr>, w')
                  else (ucast tramp, d\<lparr>m_detour := Some det, m_trampoline := tramp\<rparr>, w')))"

text \<open>\<^verbatim>\<open>void unhook()\<close>; the destructor \<^verbatim>\<open>~c_detour\<close> is a call of it.\<close>

definition c_detour_unhook :: "c_detour \<times> world \<Rightarrow> c_detour \<times> world" where
  "c_detour_unhook s =
     (case s of (d, w) \<Rightarrow>
        (case m_detour d of
           None \<Rightarrow> (d, w)
         | Some det \<Rightarrow> (d\<lparr>m_detour := None, m_trampoline := 0\<rparr>, x86Detour_unHook det w)))"

text \<open>\<^verbatim>\<open>address_t apply(const uint32_t, address_t) override { return 0; }\<close>\<close>

definition c_detour_apply_index ::
  "uint32_t \<Rightarrow> uintptr_t \<Rightarrow> c_detour \<times> world \<Rightarrow> uintptr_t \<times> c_detour \<times> world" where
  "c_detour_apply_index index dest s = (0, s)"

text \<open>\<^verbatim>\<open>src()\<close> and \<^verbatim>\<open>original<Fn>()\<close> (the trampoline reinterpreted as a pointer).\<close>

definition c_detour_src :: "c_detour \<Rightarrow> uintptr_t" where
  "c_detour_src d = m_src d"

definition c_detour_original :: "c_detour \<Rightarrow> uintptr_t" where
  "c_detour_original d = ucast (m_trampoline d)"

text \<open>
  The installed-state invariant of the data model: the trampoline is nonzero
  exactly when a session handle is held.
\<close>

definition detour_inv :: "c_detour \<Rightarrow> bool" where
  "detour_inv d = ((m_trampoline d \<noteq> 0) = (m_detour d \<noteq> None))"

section \<open>\<^verbatim>\<open>c_vtable_hook\<close>\<close>

datatype mode = vfunc_swap | vtable_swap

text \<open>
  \<^verbatim>\<open>struct HookEntry\<close>: the two handles are \<^verbatim>\<open>std::unique_ptr\<close>s, null unless
  assigned.
\<close>

record HookEntry =
  index :: uint32_t
  original :: uintptr_t
  vfunc :: "VFuncSwapHook option"
  vtable :: "VTableSwapHook option"

record c_vtable_hook =
  m_instance :: uintptr_t
  m_mode :: mode
  m_hooks :: "HookEntry list"

text \<open>\<^verbatim>\<open>explicit c_vtable_hook(uintptr_t instance, mode m = mode::vfunc_swap)\<close>\<close>

definition c_vtable_hook_new :: "uintptr_t \<Rightarrow> mode \<Rightarrow> c_vtable_hook" where
  "c_vtable_hook_new instance m = \<lparr>m_instance = instance, m_mode = m, m_hooks = []\<rparr>"

text \<open>
  \<^verbatim>\<open>uintptr_t apply(uint32_t index, uintptr_t replacement) override\<close>. The two
  reads \<^verbatim>\<open>*vt_ptr\<close> and \<^verbatim>\<open>(*vt_ptr)[index]\<close> come before any check of
  \<open>index\<close>; where they leave mapped memory the call has no defined result,
  which is the outer \<open>None\<close>. On a failed \<^verbatim>\<open>hook()\<close> the local
  \<^verbatim>\<open>unique_ptr\<close> dies with nothing committed.
\<close>

definition c_vtable_hook_apply ::
  "PatchEngine \<Rightarrow> uint32_t \<Rightarrow> uintptr_t \<Rightarrow> c_vtable_hook \<times> world
     \<Rightarrow> (uintptr_t \<times> c_vtable_hook \<times> world) option" where
  "c_vtable_hook_apply E idx replacement s =
     (case s of (h, w) \<Rightarrow>
        if m_instance h = 0 then Some (0, h, w)
        else
          (case vptr w (m_instance h) of
             None \<Rightarrow> None
           | Some vt \<Rightarrow>
               (case read_slot w vt (unat idx) of
                  None \<Rightarrow> None
                | Some orig \<Rightarrow>
                    (let entry = \<lparr>index = idx, original = orig, vfunc = None, vtable = None\<rparr>
                     in if m_mode h = vfunc_swap
                        then (case VFuncSwapHook_hook E vt (ucast idx) (ucast replacement) w of
                                None \<Rightarrow> Some (0, h, w)
                              | Some (hook, w') \<Rightarrow>
                                  Some (orig,
                                        h\<lparr>m_hooks := m_hooks h @ [entry\<lparr>vfunc := Some hook\<rparr>]\<rparr>,
                                        w'))
                        else (case VTableSwapHook_hook E (ucast (m_instance h)) (ucast idx)
                                     (ucast replacement) w of
                                None \<Rightarrow> Some (0, h, w)
                              | Some (hook, w') \<Rightarrow>
                                  Some (orig,
                                        h\<lparr>m_hooks := m_hooks h @ [entry\<lparr>vtable := Some hook\<rparr>]\<rparr>,
                                        w'))))))"

text \<open>
  The body of the loop in \<^verbatim>\<open>unhook_all\<close>:
  \<^verbatim>\<open>if (e.vfunc) e.vfunc->unHook(); if (e.vtable) e.vtable->unHook();\<close>
\<close>

definition unhook_entry :: "HookEntry \<Rightarrow> world \<Rightarrow> world" where
  "unhook_entry e w =
     (let w1 = (case vfunc e of None \<Rightarrow> w | Some hk \<Rightarrow> VFuncSwapHook_unHook hk w)
      in case vtable e of None \<Rightarrow> w1 | Some hk \<Rightarrow> VTableSwapHook_unHook hk w1)"

text \<open>\<^verbatim>\<open>for (auto& e : m_hooks)\<close>: from the front of the vector to its back.\<close>

fun unhook_loop :: "HookEntry list \<Rightarrow> world \<Rightarrow> world" where
  "unhook_loop [] w = w"
| "unhook_loop (e # es) w = unhook_loop es (unhook_entry e w)"

text \<open>
  \<^verbatim>\<open>void unhook_all()\<close>: the loop, then \<^verbatim>\<open>m_hooks.clear()\<close>. The destructor
  \<^verbatim>\<open>~c_vtable_hook\<close> is a call of it.
\<close>

definition c_vtable_hook_unhook_all :: "c_vtable_hook \<times> world \<Rightarrow> c_vtable_hook \<times> world" where
  "c_vtable_hook_unhook_all s =
     (case s of (h, w) \<Rightarrow> (h\<lparr>m_hooks := []\<rparr>, unhook_loop (m_hooks h) w))"

section \<open>Virtual dispatch over the two kinds\<close>

text \<open>
  A \<^verbatim>\<open>c_hook*\<close> points at one of the two concrete classes. \<^verbatim>\<open>c_detour\<close>
  overrides both \<^verbatim>\<open>apply\<close> overloads; \<^verbatim>\<open>c_vtable_hook\<close> overrides only the
  two-argument one and inherits \<^verbatim>\<open>c_hook::apply(uintptr_t)\<close>.
\<close>

datatype hook = Detour c_detour | VtableHook c_vtable_hook

fun is_detour :: "hook \<Rightarrow> bool" where
  "is_detour (Detour d) = True"
| "is_detour (VtableHook h) = False"

fun hook_apply ::
  "PatchEngine \<Rightarrow> uintptr_t \<Rightarrow> hook \<times> world \<Rightarrow> (uintptr_t \<times> hook \<times> world) option" where
  "hook_apply E dest (Detour d, w) =
     (case c_detour_apply E dest (d, w) of (r, d', w') \<Rightarrow> Some (r, Detour d', w'))"
| "hook_apply E dest (VtableHook h, w) =
     (case c_hook_apply dest (h, w) of (r, h', w') \<Rightarrow> Some (r, VtableHook h', w'))"

fun hook_apply_index ::
  "PatchEngine \<Rightarrow> uint32_t \<Rightarrow> uintptr_t \<Rightarrow> hook \<times> world \<Rightarrow> (uintptr_t \<times> hook \<times> world) option" where
  "hook_apply_index E idx dest (Detour d, w) =
     (case c_detour_apply_index idx dest (d, w) of (r, d', w') \<Rightarrow> Some (r, Detour d', w'))"
| "hook_apply_index E idx dest (VtableHook h, w) =
     (case c_vtable_hook_apply E idx dest (h, w) of
        None \<Rightarrow> None
      | Some (r, h', w') \<Rightarrow> Some (r, VtableHook h', w'))"

section \<open>A concrete process and engines for the examples\<close>

text \<open>
  One object at \<open>0x5000\<close> whose dispatch table at \<open>0x6000\<close> has the three
  slots \<open>0xA0\<close>, \<open>0xA1\<close>, \<open>0xA2\<close>; no code patches.
\<close>

definition world0 :: world where
  "world0 = \<lparr>vptr = [0x5000 \<mapsto> 0x6000],
             tables = [0x6000 \<mapsto> [0xA0, 0xA1, 0xA2]],
             redirects = []\<rparr>"

text \<open>
  An engine that commits every request: a detour gets the trampoline
  \<open>0x3000\<close>, the first clone of a table is placed at \<open>0x7000\<close> and a clone
  made while that one is live at \<open>0x7100\<close>.
\<close>

definition engine_ok :: PatchEngine where
  "engine_ok = \<lparr>x86Detour_commit = (\<lambda>src dest w. (True, 0x3000)),
                VFuncSwap_commit = (\<lambda>table idx replacement w. True),
                VTableSwap_commit = (\<lambda>cls idx replacement w.
                   if tables w 0x7000 = None then Some 0x7000 else Some 0x7100)\<rparr>"

text \<open>
  An engine that rejects every request, leaving \<open>0xDEAD\<close> in the trampoline
  variable of a detour.
\<close>

definition engine_fail :: PatchEngine where
  "engine_fail = \<lparr>x86Detour_commit = (\<lambda>src dest w. (False, 0xDEAD)),
                  VFuncSwap_commit = (\<lambda>table idx replacement w. False),
                  VTableSwap_commit = (\<lambda>cls idx replacement w. None)\<rparr>"

text \<open>
  The detour on \<open>0x1000\<close> after \<^verbatim>\<open>apply(0x2000)\<close> has committed under
  \<open>engine_ok\<close>, and the process with that one patch.
\<close>

definition detour_installed :: c_detour where
  "detour_installed =
     \<lparr>m_src = 0x1000, m_trampoline = 0x3000,
      m_detour = Some \<lparr>fnAddress = 0x1000, fnCallback = 0x2000\<rparr>\<rparr>"

definition world_patched :: world where
  "world_patched = \<lparr>vptr = [0x5000 \<mapsto> 0x6000],
                    tables = [0x6000 \<mapsto> [0xA0, 0xA1, 0xA2]],
                    redirects = [(0x1000, 0x2000)]\<rparr>"

text \<open>
  Single-slot strategy on the object at \<open>0x5000\<close>: the hook and the process
  after \<^verbatim>\<open>apply(1, 0xB0)\<close> (\<open>swap_hook1\<close>, \<open>swap_world1\<close>) and after a second
  install on the same slot, \<^verbatim>\<open>apply(1, 0xB1)\<close> (\<open>swap_hook2\<close>, \<open>swap_world2\<close>),
  both committed by \<open>engine_ok\<close>.
\<close>

definition swap_hook1 :: c_vtable_hook where
  "swap_hook1 =
     \<lparr>m_instance = 0x5000, m_mode = vfunc_swap,
      m_hooks = [\<lparr>index = 1, original = 0xA1,
                  vfunc = Some \<lparr>vf_table = 0x6000, vf_index = 1, vf_replacement = 0xB0,
                                vf_saved = 0xA1\<rparr>,
                  vtable = None\<rparr>]\<rparr>"

definition swap_world1 :: world where
  "swap_world1 = \<lparr>vptr = [0x5000 \<mapsto> 0x6000],
                  tables = [0x6000 \<mapsto> [0xA0, 0xB0, 0xA2]],
                  redirects = []\<rparr>"

definition swap_hook2 :: c_vtable_hook where
  "swap_hook2 =
     \<lparr>m_instance = 0x5000, m_mode = vfunc_swap,
      m_hooks = [\<lparr>index = 1, original = 0xA1,
                  vfunc = Some \<lparr>vf_table = 0x6000, vf_index = 1, vf_replacement = 0xB0,
                                vf_saved = 0xA1\<rparr>,
                  vtable = None\<rparr>,
                 \<lparr>index = 1, original = 0xB0,
                  vfunc = Some \<lparr>vf_table = 0x6000, vf_index = 1, vf_replacement = 0xB1,
                                vf_saved = 0xB0\<rparr>,
                  vtable = None\<rparr>]\<rparr>"

definition swap_world2 :: world where
  "swap_world2 = \<lparr>vptr = [0x5000 \<mapsto> 0x6000],
                  tables = [0x6000 \<mapsto> [0xA0, 0xB1, 0xA2]],
                  redirects = []\<rparr>"

text \<open>
  Whole-table strategy on the same object: the hook and the process after
  \<^verbatim>\<open>apply(0, 0xB0)\<close> (\<open>clone_hook1\<close>, \<open>clone_world1\<close>) and after
  \<^verbatim>\<open>apply(1, 0xB1)\<close> on another slot (\<open>clone_hook2\<close>, \<open>clone_world2\<close>), both
  committed by \<open>engine_ok\<close>. The second session saves the table pointer it finds
  in the instance, which is the first clone.
\<close>

definition clone_hook1 :: c_vtable_hook where
  "clone_hook1 =
     \<lparr>m_instance = 0x5000, m_mode = vtable_swap,
      m_hooks = [\<lparr>index = 0, original = 0xA0, vfunc = None,
                  vtable = Some \<lparr>vt_class = 0x5000, vt_index = 0, vt_replacement = 0xB0,
                                 vt_orig_table = 0x6000, vt_clone = 0x7000\<rparr>\<rparr>]\<rparr>"

definition clone_world1 :: world where
  "clone_world1 = \<lparr>vptr = [0x5000 \<mapsto> 0x7000],
                   tables = [0x6000 \<mapsto> [0xA0, 0xA1, 0xA2], 0x7000 \<mapsto> [0xB0, 0xA1, 0xA2]],
                   redirects = []\<rparr>"

definition clone_hook2 :: c_vtable_hook where
  "clone_hook2 =
     \<lparr>m_instance = 0x5000, m_mode = vtable_swap,
      m_hooks = [\<lparr>index = 0, original = 0xA0, vfunc = None,
                  vtable = Some \<lparr>vt_class = 0x5000, vt_index = 0, vt_replacement = 0xB0,
                                 vt_orig_table = 0x6000, vt_clone = 0x7000\<rparr>\<rparr>,
                 \<lparr>index = 1, original = 0xA1, vfunc = None,
                  vtable = Some \<lparr>vt_class = 0x5000, vt_index = 1, vt_replacement = 0xB1,
                                 vt_orig_table = 0x7000, vt_clone = 0x7100\<rparr>\<rparr>]\<rparr>"

definition clone_world2 :: world where
  "clone_world2 = \<lparr>vptr = [0x5000 \<mapsto> 0x7100],
                   tables = [0x6000 \<mapsto> [0xA0, 0xA1, 0xA2], 0x7000 \<mapsto> [0xB0, 0xA1, 0xA2],
                             0x7100 \<mapsto> [0xB0, 0xB1, 0xA2]],
                   redirects = []\<rparr>"






section \<open>Auxiliary facts\<close>

lemmas example_defs =
  world0_def world_patched_def engine_ok_def engine_fail_def detour_installed_def
  c_detour_new_def c_detour_default_def c_vtable_hook_new_def

lemmas scenario_defs =
  swap_hook1_def swap_world1_def swap_hook2_def swap_world2_def
  clone_hook1_def clone_world1_def clone_hook2_def clone_world2_def


text \<open>
  A replacement address survives the round trip through the engine's 64-bit
  argument; a slot index below \<open>2 ^ 16\<close> survives the cast to \<^verbatim>\<open>uint16_t\<close>.
\<close>

lemma ucast_replacement: "(ucast (ucast (r :: 32 word) :: 64 word) :: 32 word) = r"
  by (simp add: ucast_up_ucast_id is_up)

lemma ucast_index_16: "unat (idx :: 32 word) < 2 ^ 16 \<Longrightarrow> unat (ucast idx :: 16 word) = unat idx"
  by (simp add: unsigned_ucast_eq unsigned_take_bit_eq take_bit_nat_eq_self)








section \<open>Properties of \<^verbatim>\<open>c_hook\<close> and \<^verbatim>\<open>c_detour\<close>\<close>

text \<open>
  C7 (inapplicable overload): on a detour the two-argument \<^verbatim>\<open>apply\<close> returns 0
  and changes neither the object nor the process; on a vtable hook the
  one-argument \<^verbatim>\<open>apply\<close> returns 0 and changes neither. Both calls return
  normally.
\<close>

theorem inapplicable_overload_noop:
  "hook_apply_index E idx dest (Detour d, w) = Some (0, Detour d, w) \<and>
   hook_apply E dest (VtableHook h, w) = Some (0, VtableHook h, w) \<and>
   c_detour_apply_index idx dest (d, w) = (0, d, w) \<and>
   c_hook_apply dest (h, w) = (0, h, w)"
  by (simp add: c_detour_apply_index_def c_hook_apply_def)

text \<open>
  C1 (idempotent install): on a detour that holds a patch session, every
  \<^verbatim>\<open>apply\<close> returns the stored trampoline and leaves the object and the
  process as they are. In particular, when a first \<^verbatim>\<open>apply\<close> on a detour
  without a session ends with a session held, a second \<^verbatim>\<open>apply\<close> returns the
  same value and changes nothing, and the process holds exactly one patch more
  than before the first call: the redirect from the source to the destination.
\<close>

theorem detour_apply_idempotent:
  "(m_detour d \<noteq> None \<longrightarrow>
      c_detour_apply E dest (d, w) = (ucast (m_trampoline d), d, w)) \<and>
   (m_detour d0 = None \<and> c_detour_apply E dest0 (d0, w0) = (t, d1, w1) \<and> m_detour d1 \<noteq> None \<longrightarrow>
      c_detour_apply E dest0 (d1, w1) = (t, d1, w1) \<and>
      redirects w1 = (ucast (m_src d0), ucast dest0) # redirects w0)"
  by (auto simp: c_detour_apply_def x86Detour_hook_def Let_def split: prod.splits if_splits)

theorem detour_apply_idempotent_witness:
  "m_detour detour_installed \<noteq> None \<and>
   c_detour_apply engine_ok 0x2000 (detour_installed, world_patched) =
     (0x3000, detour_installed, world_patched) \<and>
   m_detour (c_detour_new 0x1000) = None \<and>
   c_detour_apply engine_ok 0x2000 (c_detour_new 0x1000, world0) =
     (0x3000, detour_installed, world_patched) \<and>
   redirects world_patched = (0x1000, 0x2000) # redirects world0"
  using detour_apply_idempotent [where d = detour_installed and E = engine_ok
      and dest = "0x2000" and w = world_patched and ?d0.0 = "c_detour_new 0x1000"
      and ?dest0.0 = "0x2000" and ?w0.0 = world0 and t = "0x3000"
      and ?d1.0 = detour_installed and ?w1.0 = world_patched]
  by (simp add: example_defs c_detour_apply_def x86Detour_hook_def)

text \<open>
  C2 (null-safety, for a detour without a session): on a detour that holds no
  patch session, \<^verbatim>\<open>apply\<close> with source address 0 or destination 0 returns
  0 and changes neither the object (a trampoline at 0 stays at 0) nor the
  process. A detour
  constructed with source 0, or default-constructed, is left as constructed by
  every \<^verbatim>\<open>apply\<close> and by \<^verbatim>\<open>unhook\<close>, so each \<^verbatim>\<open>apply\<close> on it returns 0 and
  its trampoline stays 0.
\<close>

theorem detour_null_safety:
  "(m_detour d = None \<longrightarrow> m_src d = 0 \<or> dest = 0 \<longrightarrow>
      c_detour_apply E dest (d, w) = (0, d, w)) \<and>
   c_detour_apply E dest (c_detour_new 0, w) = (0, c_detour_new 0, w) \<and>
   c_detour_apply E dest (c_detour_default, w) = (0, c_detour_default, w) \<and>
   c_detour_unhook (c_detour_new 0, w) = (c_detour_new 0, w) \<and>
   m_trampoline (c_detour_new 0) = 0 \<and> m_detour (c_detour_new 0) = None"
  by (auto simp: c_detour_apply_def c_detour_unhook_def c_detour_new_def c_detour_default_def)

theorem detour_null_safety_witness:
  "m_detour (c_detour_new 0x1000) = None \<and>
   (m_src (c_detour_new 0x1000) = 0 \<or> (0 :: uintptr_t) = 0) \<and>
   c_detour_apply engine_ok 0 (c_detour_new 0x1000, world0) = (0, c_detour_new 0x1000, world0) \<and>
   m_trampoline (c_detour_new 0x1000) = 0"
  using detour_null_safety [where d = "c_detour_new 0x1000" and dest = 0
      and E = engine_ok and w = world0]
  by (simp add: c_detour_new_def)

text \<open>
  Without the restriction to a detour without a session, the statement
  ("\<^verbatim>\<open>apply\<close> with destination 0 always returns 0 and leaves the trampoline
  at 0") fails on an installed detour, because the \<^verbatim>\<open>if (m_detour)\<close> test
  comes before the null test: after
  \<^verbatim>\<open>c_detour(0x1000).apply(0x2000)\<close> has committed with trampoline \<open>0x3000\<close>,
  \<^verbatim>\<open>apply(0)\<close> returns \<open>0x3000\<close> and the stored trampoline stays \<open>0x3000\<close>.
\<close>

theorem detour_null_dest_counterexample:
  "c_detour_apply engine_ok 0x2000 (c_detour_new 0x1000, world0) =
     (0x3000, detour_installed, world_patched) \<and>
   c_detour_apply engine_ok 0 (detour_installed, world_patched) =
     (0x3000, detour_installed, world_patched) \<and>
   fst (c_detour_apply engine_ok 0 (detour_installed, world_patched)) \<noteq> 0 \<and>
   m_trampoline (fst (snd (c_detour_apply engine_ok 0 (detour_installed, world_patched)))) \<noteq> 0"
  by (simp add: example_defs c_detour_apply_def x86Detour_hook_def)

text \<open>
  C3 (engine failure): on a detour without a session, with nonzero source and
  destination, when the engine's \<^verbatim>\<open>hook()\<close> returns false, \<^verbatim>\<open>apply\<close> returns 0,
  the session pointer is null again and the trampoline is 0 whatever the engine
  left in it; the source address and the process are untouched. A detour that
  was in the uninstalled state (no session, trampoline 0) before the call is
  exactly as before.
\<close>

theorem detour_engine_failure:
  assumes "m_detour d = None" and "m_src d \<noteq> 0" and "dest \<noteq> 0"
    and "\<not> fst (x86Detour_hook E \<lparr>fnAddress = ucast (m_src d), fnCallback = ucast dest\<rparr> w)"
  shows "c_detour_apply E dest (d, w) = (0, d\<lparr>m_trampoline := 0\<rparr>, w) \<and>
         m_detour (d\<lparr>m_trampoline := 0\<rparr>) = None \<and>
         (m_trampoline d = 0 \<longrightarrow> c_detour_apply E dest (d, w) = (0, d, w))"
  using assms
  by (auto simp: c_detour_apply_def x86Detour_hook_def Let_def split: prod.splits if_splits)

theorem detour_engine_failure_witness:
  "m_detour (c_detour_new 0x1000) = None \<and> m_src (c_detour_new 0x1000) \<noteq> 0 \<and>
   (0x2000 :: uintptr_t) \<noteq> 0 \<and>
   x86Detour_hook engine_fail \<lparr>fnAddress = 0x1000, fnCallback = 0x2000\<rparr> world0 =
     (False, 0xDEAD, world0) \<and>
   m_trampoline (c_detour_new 0x1000) = 0 \<and>
   c_detour_apply engine_fail 0x2000 (c_detour_new 0x1000, world0) =
     (0, c_detour_new 0x1000, world0)"
  using detour_engine_failure [where d = "c_detour_new 0x1000" and dest = "0x2000"
      and E = engine_fail and w = world0]
  by (simp add: c_detour_new_def engine_fail_def x86Detour_hook_def)

text \<open>
  C8 (installed-state invariant): the stored trampoline is nonzero exactly when
  a session handle is held. This holds for a default-constructed detour and for
  one constructed on any source address; \<^verbatim>\<open>apply\<close> preserves it in each of its
  four outcomes (already installed, null-guarded, engine failure, engine
  success), provided the engine does not report a committed detour with a null
  trampoline; \<^verbatim>\<open>unhook\<close> preserves it.
\<close>

theorem detour_invariant:
  "detour_inv c_detour_default \<and>
   detour_inv (c_detour_new src) \<and>
   (detour_inv d \<longrightarrow> x86Detour_commit E (ucast (m_src d)) (ucast dest) w \<noteq> (True, 0) \<longrightarrow>
      detour_inv (fst (snd (c_detour_apply E dest (d, w))))) \<and>
   (detour_inv d \<longrightarrow> detour_inv (fst (c_detour_unhook (d, w))))"
  by (auto simp: detour_inv_def c_detour_default_def c_detour_new_def c_detour_apply_def
      c_detour_unhook_def x86Detour_hook_def Let_def split: prod.splits if_splits option.splits)

theorem detour_invariant_witness:
  "detour_inv (c_detour_new 0x1000) \<and>
   x86Detour_commit engine_ok 0x1000 0x2000 world0 \<noteq> (True, 0) \<and>
   fst (snd (c_detour_apply engine_ok 0x2000 (c_detour_new 0x1000, world0))) = detour_installed \<and>
   detour_inv detour_installed \<and>
   fst (c_detour_unhook (detour_installed, world_patched)) = c_detour_new 0x1000 \<and>
   x86Detour_commit engine_fail 0x1000 0x2000 world0 \<noteq> (True, 0) \<and>
   detour_inv (fst (snd (c_detour_apply engine_fail 0x2000 (c_detour_new 0x1000, world0)))) \<and>
   detour_inv (fst (snd (c_detour_apply engine_ok 0 (c_detour_new 0x1000, world0))))"
  using detour_invariant [where src = "0x1000" and d = "c_detour_new 0x1000" and dest = "0x2000"
      and E = engine_ok and w = world0]
    detour_invariant [where src = "0x1000" and d = detour_installed and dest = "0x2000"
      and E = engine_ok and w = world_patched]
    detour_invariant [where src = "0x1000" and d = "c_detour_new 0x1000" and dest = "0x2000"
      and E = engine_fail and w = world0]
    detour_invariant [where src = "0x1000" and d = "c_detour_new 0x1000" and dest = 0
      and E = engine_ok and w = world0]
  by (simp add: example_defs c_detour_apply_def c_detour_unhook_def x86Detour_hook_def
      detour_inv_def)

section \<open>Properties of \<^verbatim>\<open>c_vtable_hook::apply\<close>\<close>

text \<open>
  C4 (install, success): on a vtable hook with nonzero instance address, let
  \<open>orig\<close> be the value at slot \<open>idx\<close> of the table the instance points to when
  the call starts. If the engine's \<^verbatim>\<open>hook()\<close> for the hook's strategy commits,
  \<^verbatim>\<open>apply\<close> returns \<open>orig\<close> and the entry list grows by exactly one entry at
  its end, holding \<open>idx\<close>, \<open>orig\<close> and the engine handle in the field of the
  strategy (the other handle null); the process is as the engine left it.
\<close>

theorem vtable_apply_success:
  assumes "m_instance h \<noteq> 0"
    and "vptr w (m_instance h) = Some vt"
    and "live_slot w (m_instance h) (unat idx) = Some orig"
  shows "(m_mode h = vfunc_swap \<longrightarrow>
            VFuncSwapHook_hook E vt (ucast idx) (ucast r) w = Some (hk, w') \<longrightarrow>
            c_vtable_hook_apply E idx r (h, w) =
              Some (orig,
                    h\<lparr>m_hooks := m_hooks h @
                       [\<lparr>index = idx, original = orig, vfunc = Some hk, vtable = None\<rparr>]\<rparr>,
                    w')) \<and>
         (m_mode h = vtable_swap \<longrightarrow>
            VTableSwapHook_hook E (ucast (m_instance h)) (ucast idx) (ucast r) w = Some (hk2, w'') \<longrightarrow>
            c_vtable_hook_apply E idx r (h, w) =
              Some (orig,
                    h\<lparr>m_hooks := m_hooks h @
                       [\<lparr>index = idx, original = orig, vfunc = None, vtable = Some hk2\<rparr>]\<rparr>,
                    w''))"
  using assms by (simp add: c_vtable_hook_apply_def live_slot_def)

theorem vtable_apply_success_witness:
  "m_instance (c_vtable_hook_new 0x5000 vfunc_swap) \<noteq> 0 \<and>
   vptr world0 0x5000 = Some 0x6000 \<and>
   live_slot world0 0x5000 (unat (1 :: uint32_t)) = Some 0xA1 \<and>
   VFuncSwapHook_hook engine_ok 0x6000 1 0xB0 world0 =
     Some (\<lparr>vf_table = 0x6000, vf_index = 1, vf_replacement = 0xB0, vf_saved = 0xA1\<rparr>,
           swap_world1) \<and>
   c_vtable_hook_apply engine_ok 1 0xB0 (c_vtable_hook_new 0x5000 vfunc_swap, world0) =
     Some (0xA1, swap_hook1, swap_world1) \<and>
   m_instance (c_vtable_hook_new 0x5000 vtable_swap) \<noteq> 0 \<and>
   live_slot world0 0x5000 (unat (0 :: uint32_t)) = Some 0xA0 \<and>
   VTableSwapHook_hook engine_ok 0x5000 0 0xB0 world0 =
     Some (\<lparr>vt_class = 0x5000, vt_index = 0, vt_replacement = 0xB0,
             vt_orig_table = 0x6000, vt_clone = 0x7000\<rparr>,
           clone_world1) \<and>
   c_vtable_hook_apply engine_ok 0 0xB0 (c_vtable_hook_new 0x5000 vtable_swap, world0) =
     Some (0xA0, clone_hook1, clone_world1)"
  using vtable_apply_success [where h = "c_vtable_hook_new 0x5000 vfunc_swap" and w = world0
      and vt = "0x6000" and idx = 1 and orig = "0xA1" and E = engine_ok and r = "0xB0"
      and hk = "\<lparr>vf_table = 0x6000, vf_index = 1, vf_replacement = 0xB0, vf_saved = 0xA1\<rparr>"
      and w' = swap_world1]
    vtable_apply_success [where h = "c_vtable_hook_new 0x5000 vtable_swap" and w = world0
      and vt = "0x6000" and idx = 0 and orig = "0xA0" and E = engine_ok and r = "0xB0"
      and ?hk2.0 = "\<lparr>vt_class = 0x5000, vt_index = 0, vt_replacement = 0xB0,
                       vt_orig_table = 0x6000, vt_clone = 0x7000\<rparr>"
      and w'' = clone_world1]
  by (simp add: example_defs scenario_defs live_slot_def read_slot_def
      VFuncSwapHook_hook_def VTableSwapHook_hook_def)

text \<open>
  C5 (install, failure): \<^verbatim>\<open>apply\<close> returns 0 and leaves the hook object (entry
  list, instance, strategy) and the process unchanged when the instance address
  is 0, and, for either strategy, when the slot read is defined and the engine's
  \<^verbatim>\<open>hook()\<close> returns false.
\<close>

theorem vtable_apply_failure:
  "(m_instance h = 0 \<longrightarrow> c_vtable_hook_apply E idx r (h, w) = Some (0, h, w)) \<and>
   (m_instance h \<noteq> 0 \<longrightarrow> vptr w (m_instance h) = Some vt \<longrightarrow>
    live_slot w (m_instance h) (unat idx) = Some orig \<longrightarrow>
      (m_mode h = vfunc_swap \<longrightarrow>
         VFuncSwapHook_hook E vt (ucast idx) (ucast r) w = None \<longrightarrow>
         c_vtable_hook_apply E idx r (h, w) = Some (0, h, w)) \<and>
      (m_mode h = vtable_swap \<longrightarrow>
         VTableSwapHook_hook E (ucast (m_instance h)) (ucast idx) (ucast r) w = None \<longrightarrow>
         c_vtable_hook_apply E idx r (h, w) = Some (0, h, w)))"
  by (simp add: c_vtable_hook_apply_def live_slot_def)

theorem vtable_apply_failure_witness:
  "m_instance (c_vtable_hook_new 0 vfunc_swap) = 0 \<and>
   c_vtable_hook_apply engine_ok 1 0xB0 (c_vtable_hook_new 0 vfunc_swap, world0) =
     Some (0, c_vtable_hook_new 0 vfunc_swap, world0) \<and>
   m_instance (c_vtable_hook_new 0x5000 vfunc_swap) \<noteq> 0 \<and>
   vptr world0 0x5000 = Some 0x6000 \<and>
   live_slot world0 0x5000 (unat (1 :: uint32_t)) = Some 0xA1 \<and>
   VFuncSwapHook_hook engine_fail 0x6000 1 0xB0 world0 = None \<and>
   c_vtable_hook_apply engine_fail 1 0xB0 (c_vtable_hook_new 0x5000 vfunc_swap, world0) =
     Some (0, c_vtable_hook_new 0x5000 vfunc_swap, world0) \<and>
   VTableSwapHook_hook engine_fail 0x5000 1 0xB0 world0 = None \<and>
   c_vtable_hook_apply engine_fail 1 0xB0 (c_vtable_hook_new 0x5000 vtable_swap, world0) =
     Some (0, c_vtable_hook_new 0x5000 vtable_swap, world0)"
  using vtable_apply_failure [where h = "c_vtable_hook_new 0 vfunc_swap" and w = world0
      and idx = 1 and E = engine_ok and r = "0xB0"]
    vtable_apply_failure [where h = "c_vtable_hook_new 0x5000 vfunc_swap" and w = world0
      and vt = "0x6000" and idx = 1 and orig = "0xA1" and E = engine_fail and r = "0xB0"]
    vtable_apply_failure [where h = "c_vtable_hook_new 0x5000 vtable_swap" and w = world0
      and vt = "0x6000" and idx = 1 and orig = "0xA1" and E = engine_fail and r = "0xB0"]
  by (simp add: example_defs live_slot_def read_slot_def
      VFuncSwapHook_hook_def VTableSwapHook_hook_def)

text \<open>
  C10 (unguarded index read): \<^verbatim>\<open>apply\<close> has no check of \<open>idx\<close>. Once the
  instance address is nonzero, the call has a defined result exactly when the
  read of slot \<open>idx\<close> through the instance is defined, that is, when the
  instance is mapped, its table pointer leads to a mapped table, and \<open>idx\<close> is
  below the number of slots of that table; for every other \<open>idx\<close> the read is
  still made and the call is undefined.
\<close>

theorem vtable_apply_unguarded_index:
  assumes "m_instance h \<noteq> 0"
  shows "(c_vtable_hook_apply E idx r (h, w) = None) =
           (live_slot w (m_instance h) (unat idx) = None) \<and>
         (c_vtable_hook_apply E idx r (h, w) \<noteq> None) =
           (\<exists>vt tbl. vptr w (m_instance h) = Some vt \<and> tables w vt = Some tbl \<and>
                      unat idx < length tbl)"
  using assms
  by (auto simp: c_vtable_hook_apply_def live_slot_def read_slot_def Let_def
      split: option.splits prod.splits)

theorem vtable_apply_unguarded_index_witness:
  "m_instance (c_vtable_hook_new 0x5000 vfunc_swap) \<noteq> 0 \<and>
   live_slot world0 0x5000 (unat (3 :: uint32_t)) = None \<and>
   c_vtable_hook_apply engine_ok 3 0xB0 (c_vtable_hook_new 0x5000 vfunc_swap, world0) = None \<and>
   live_slot world0 0x5000 (unat (1 :: uint32_t)) \<noteq> None \<and>
   c_vtable_hook_apply engine_ok 1 0xB0 (c_vtable_hook_new 0x5000 vfunc_swap, world0) \<noteq> None"
  using vtable_apply_unguarded_index [where h = "c_vtable_hook_new 0x5000 vfunc_swap"
      and E = engine_ok and idx = 3 and r = "0xB0" and w = world0]
    vtable_apply_unguarded_index [where h = "c_vtable_hook_new 0x5000 vfunc_swap"
      and E = engine_ok and idx = 1 and r = "0xB0" and w = world0]
  by (simp add: example_defs live_slot_def read_slot_def)

section \<open>Properties of \<^verbatim>\<open>c_vtable_hook::unhook_all\<close>\<close>

text \<open>
  What \<^verbatim>\<open>unhook_all\<close> does achieve: the entry list is empty afterwards, a hook
  without entries is left alone together with the process, and a single install
  on a fresh hook (committed or not, either strategy) is undone exactly, hook
  object and process being as before the install.
\<close>

lemma unhook_all_clears: "m_hooks (fst (c_vtable_hook_unhook_all (h, w))) = []"
  by (simp add: c_vtable_hook_unhook_all_def)

lemma unhook_all_no_entries: "m_hooks h = [] \<Longrightarrow> c_vtable_hook_unhook_all (h, w) = (h, w)"
  by (simp add: c_vtable_hook_unhook_all_def)

lemma single_install_restored:
  assumes "m_hooks h = []" and "m_instance h \<noteq> 0"
    and "m_mode h = vfunc_swap \<longrightarrow> unat idx < 2 ^ 16"
    and "c_vtable_hook_apply E idx r (h, w) = Some (orig, h', w')"
  shows "c_vtable_hook_unhook_all (h', w') = (h, w)"
proof (cases "m_mode h")
  case vfunc_swap
  then show ?thesis
    using assms
    by (auto simp: c_vtable_hook_apply_def read_slot_def VFuncSwapHook_hook_def
        c_vtable_hook_unhook_all_def unhook_entry_def VFuncSwapHook_unHook_def
        ucast_index_16 map_upd_triv split: option.splits if_splits)
next
  case vtable_swap
  then show ?thesis
    using assms
    by (auto simp: c_vtable_hook_apply_def read_slot_def VTableSwapHook_hook_def
        c_vtable_hook_unhook_all_def unhook_entry_def VTableSwapHook_unHook_def
        ucast_replacement fun_upd_idem map_upd_triv split: option.splits if_splits)
qed




text \<open>
  C6 (bulk teardown) at a failing input. A whole-table hook on the object at
  \<open>0x5000\<close> (table \<open>0x6000\<close> with slots \<open>0xA0\<close>, \<open>0xA1\<close>, \<open>0xA2\<close>) installs
  slot 0 and then slot 1; both installs commit and return the originals
  \<open>0xA0\<close> and \<open>0xA1\<close>. \<^verbatim>\<open>unhook_all\<close> then empties the entry list, but it
  undoes the first session before the second: the first puts the table pointer
  back to \<open>0x6000\<close> and frees its clone \<open>0x7000\<close>, the second then puts back
  the pointer it saved, which is \<open>0x7000\<close>. The instance is left pointing at a
  freed table, and neither redirected index reads back the value that was
  captured for it.
\<close>

theorem unhook_all_whole_table_dangling:
  "c_vtable_hook_apply engine_ok 0 0xB0 (c_vtable_hook_new 0x5000 vtable_swap, world0) =
     Some (0xA0, clone_hook1, clone_world1) \<and>
   c_vtable_hook_apply engine_ok 1 0xB1 (clone_hook1, clone_world1) =
     Some (0xA1, clone_hook2, clone_world2) \<and>
   fst (c_vtable_hook_unhook_all (clone_hook2, clone_world2)) =
     c_vtable_hook_new 0x5000 vtable_swap \<and>
   vptr (snd (c_vtable_hook_unhook_all (clone_hook2, clone_world2))) 0x5000 = Some 0x7000 \<and>
   tables (snd (c_vtable_hook_unhook_all (clone_hook2, clone_world2))) 0x7000 = None \<and>
   live_slot (snd (c_vtable_hook_unhook_all (clone_hook2, clone_world2))) 0x5000 0 = None \<and>
   live_slot (snd (c_vtable_hook_unhook_all (clone_hook2, clone_world2))) 0x5000 1 = None \<and>
   live_slot world0 0x5000 0 = Some 0xA0 \<and>
   live_slot world0 0x5000 1 = Some 0xA1"
  by (simp add: example_defs scenario_defs c_vtable_hook_apply_def read_slot_def live_slot_def
      VTableSwapHook_hook_def c_vtable_hook_unhook_all_def unhook_entry_def
      VTableSwapHook_unHook_def)

end
